theory Spec2Isabelle
  imports Main
begin

section \<open>The inventory-reservation saga of the flights service\<close>

text \<open>
  The model follows \<^verbatim>\<open>apps/flights-svc/src/index.ts\<close>: the three saga handlers
  \<^verbatim>\<open>createReservation\<close>, \<^verbatim>\<open>confirmReservation\<close>, \<^verbatim>\<open>cancelReservation\<close> and the
  callback that \<^verbatim>\<open>startReservationCleanupJob\<close> installs. Each handler runs one database
  transaction; the model takes the database before the transaction and returns the HTTP
  reply together with the database after it. A handler that throws rolls its transaction
  back, so its model returns the database it was given.
\<close>

subsection \<open>Tables\<close>

datatype res_status = Pending | Confirmed | Cancelled | Expired

text \<open>
  A row of \<^verbatim>\<open>flight_reservations\<close>, with the columns the handlers write. Times are
  milliseconds since the epoch; \<^verbatim>\<open>expires_at\<close> is nullable.
\<close>

record reservation =
  res_id :: string
  flight_id :: string
  booking_id :: string
  seats :: int
  status :: res_status
  expires_at :: "int option"

text \<open>
  The database. Of table \<^verbatim>\<open>flights\<close> only the column \<^verbatim>\<open>available_seats\<close> is read or
  written here, and the handlers address a flight by its \<^verbatim>\<open>id\<close>, the key of the table:
  the table is a map from the id to that column. The rows of \<^verbatim>\<open>flight_reservations\<close>
  are kept as a list, in insertion order.
\<close>

record db =
  flights :: "string \<rightharpoonup> int"
  flight_reservations :: "reservation list"

subsection \<open>Replies\<close>

text \<open>
  The error codes of the JSON replies, each with the message of the thrown error
  (\<^verbatim>\<open>BAD_REQUEST\<close> is HTTP 400, the others HTTP 500), and the data of the successful ones.
\<close>

datatype error =
    BAD_REQUEST
  | RESERVATION_FAILED string
  | CONFIRMATION_FAILED string
  | COMPENSATION_FAILED string

datatype reply =
    ReservationId string
  | StatusIs string
  | Message string

subsection \<open>The SQL statements\<close>

text \<open>\<^verbatim>\<open>UPDATE flights SET available_seats = available_seats + ? WHERE id = ?\<close>\<close>

definition add_available_seats :: "int \<Rightarrow> string \<Rightarrow> (string \<rightharpoonup> int) \<Rightarrow> (string \<rightharpoonup> int)" where
  "add_available_seats n fid fl =
     (case fl fid of None \<Rightarrow> fl | Some a \<Rightarrow> fl(fid \<mapsto> a + n))"

text \<open>\<^verbatim>\<open>UPDATE flights SET available_seats = available_seats - ? WHERE id = ?\<close>\<close>

definition sub_available_seats :: "int \<Rightarrow> string \<Rightarrow> (string \<rightharpoonup> int) \<Rightarrow> (string \<rightharpoonup> int)" where
  "sub_available_seats n fid fl =
     (case fl fid of None \<Rightarrow> fl | Some a \<Rightarrow> fl(fid \<mapsto> a - n))"

text \<open>\<^verbatim>\<open>UPDATE flight_reservations SET status = ? WHERE id = ?\<close>\<close>

definition set_status :: "res_status \<Rightarrow> string \<Rightarrow> reservation list \<Rightarrow> reservation list" where
  "set_status st i rs = map (\<lambda>r. if res_id r = i then r\<lparr>status := st\<rparr> else r) rs"

text \<open>\<^verbatim>\<open>UPDATE flight_reservations SET status = ?, expires_at = NULL WHERE id = ?\<close>\<close>

definition set_status_clear_expiry ::
  "res_status \<Rightarrow> string \<Rightarrow> reservation list \<Rightarrow> reservation list" where
  "set_status_clear_expiry st i rs =
     map (\<lambda>r. if res_id r = i then r\<lparr>status := st, expires_at := None\<rparr> else r) rs"

text \<open>\<^verbatim>\<open>SELECT * FROM flight_reservations WHERE id = ? AND status = ? FOR UPDATE\<close>\<close>

definition select_by_id_status ::
  "string \<Rightarrow> res_status \<Rightarrow> reservation list \<Rightarrow> reservation list" where
  "select_by_id_status i st rs = filter (\<lambda>r. res_id r = i \<and> status r = st) rs"

text \<open>
  \<^verbatim>\<open>SELECT id, flight_id, seats FROM flight_reservations
  WHERE status = 'pending' AND expires_at < NOW()\<close>.
  A comparison with NULL is not true in SQL, so a row without expiry is not selected.
\<close>

definition is_stale :: "int \<Rightarrow> reservation \<Rightarrow> bool" where
  "is_stale now r =
     (status r = Pending \<and> (case expires_at r of None \<Rightarrow> False | Some e \<Rightarrow> e < now))"

definition select_expired :: "int \<Rightarrow> reservation list \<Rightarrow> (string \<times> string \<times> int) list" where
  "select_expired now rs =
     map (\<lambda>r. (res_id r, flight_id r, seats r)) (filter (is_stale now) rs)"

subsection \<open>Reserve\<close>

text \<open>
  Modelled from the spec: the schema of \<^verbatim>\<open>flight_reservations\<close> is not among the
  sources. The spec makes \<^verbatim>\<open>id\<close> the primary key of the table, so
  \<^verbatim>\<open>INSERT INTO flight_reservations (id, flight_id, booking_id, seats, status, expires_at)
  VALUES (?, ?, ?, ?, 'pending', ?)\<close>
  fails on an id that the table holds already (\<open>None\<close>) and appends the row
  otherwise.
\<close>

definition insert_reservation :: "reservation \<Rightarrow> reservation list \<Rightarrow> reservation list option" where
  "insert_reservation r rs =
     (if res_id r \<in> set (map res_id rs) then None else Some (rs @ [r]))"

text \<open>The hold window: \<^verbatim>\<open>15 * 60 * 1000\<close> milliseconds.\<close>

definition hold_window :: int where
  "hold_window = 15 * 60 * 1000"

text \<open>
  \<^verbatim>\<open>createReservation\<close>. The request gives the flight's id (path), \<^verbatim>\<open>bookingId\<close> and
  \<^verbatim>\<open>seats\<close> (body; either may be absent, and an absent \<^verbatim>\<open>seats\<close> is 1). The id
  drawn by \<^verbatim>\<open>uuidv4()\<close> and the clock \<^verbatim>\<open>Date.now()\<close> are inputs of the model.
  \<^verbatim>\<open>!bookingId\<close> holds for an absent and for an empty string; it is checked before
  the transaction begins. Inside the transaction every thrown error ends in the rollback,
  also the failed INSERT that follows the UPDATE of the flight.
\<close>

definition createReservation ::
  "string \<Rightarrow> string option \<Rightarrow> int option \<Rightarrow> string \<Rightarrow> int \<Rightarrow> db \<Rightarrow> (error + reply) \<times> db" where
  "createReservation flightId bookingId seats_opt reservationId now s =
     (let n = (case seats_opt of None \<Rightarrow> 1 | Some k \<Rightarrow> k) in
      case bookingId of
        None \<Rightarrow> (Inl BAD_REQUEST, s)
      | Some b \<Rightarrow>
          if b = [] then (Inl BAD_REQUEST, s)
          else (case flights s flightId of
            None \<Rightarrow> (Inl (RESERVATION_FAILED ''Flight not found''), s)
          | Some available \<Rightarrow>
              if available < n then (Inl (RESERVATION_FAILED ''Not enough available seats''), s)
              else (case insert_reservation
                      \<lparr>res_id = reservationId, flight_id = flightId, booking_id = b,
                       seats = n, status = Pending, expires_at = Some (now + hold_window)\<rparr>
                      (flight_reservations s) of
                None \<Rightarrow> (Inl (RESERVATION_FAILED ''Duplicate entry''), s)
              | Some rows \<Rightarrow>
                  (Inr (ReservationId reservationId),
                   s\<lparr>flights := sub_available_seats n flightId (flights s),
                     flight_reservations := rows\<rparr>))))"

subsection \<open>Confirm\<close>

definition confirmReservation :: "string \<Rightarrow> db \<Rightarrow> (error + reply) \<times> db" where
  "confirmReservation reservationId s =
     (case select_by_id_status reservationId Pending (flight_reservations s) of
        [] \<Rightarrow> (Inl (CONFIRMATION_FAILED ''Pending reservation not found or already processed''), s)
      | reservation # _ \<Rightarrow>
          (Inr (StatusIs ''confirmed''),
           s\<lparr>flight_reservations :=
               set_status_clear_expiry Confirmed reservationId (flight_reservations s)\<rparr>))"

subsection \<open>Cancel\<close>

definition cancelReservation :: "string \<Rightarrow> db \<Rightarrow> (error + reply) \<times> db" where
  "cancelReservation reservationId s =
     (case select_by_id_status reservationId Pending (flight_reservations s) of
        [] \<Rightarrow> (Inr (Message ''Reservation already processed or not found''), s)
      | reservation # _ \<Rightarrow>
          (Inr (StatusIs ''cancelled''),
           s\<lparr>flight_reservations := set_status Cancelled reservationId (flight_reservations s),
             flights := add_available_seats (seats reservation) (flight_id reservation) (flights s)\<rparr>))"

subsection \<open>The cleanup job\<close>

text \<open>
  One run of the callback of \<^verbatim>\<open>startReservationCleanupJob\<close>: the SELECT at the
  database's clock \<^verbatim>\<open>NOW()\<close>, then the loop over the selected rows, two UPDATEs each.
  The SELECT is a plain read (no \<^verbatim>\<open>FOR UPDATE\<close>, unlike the SELECTs of Confirm and
  Cancel), and the UPDATEs of the loop address the row by its id alone, with no condition
  on the status. So \<open>cleanup_loop\<close> takes the selected rows and the database as two
  arguments: in \<open>reservationCleanup\<close> the loop runs on the database that the SELECT
  read; when the transaction of another handler commits after the SELECT, the loop runs
  on the database which that handler left.
\<close>

fun cleanup_loop :: "(string \<times> string \<times> int) list \<Rightarrow> db \<Rightarrow> db" where
  "cleanup_loop [] s = s"
| "cleanup_loop ((i, fid, n) # rest) s =
     cleanup_loop rest
       (s\<lparr>flight_reservations := set_status Expired i (flight_reservations s),
          flights := add_available_seats n fid (flights s)\<rparr>)"

definition reservationCleanup :: "int \<Rightarrow> db \<Rightarrow> db" where
  "reservationCleanup now s = cleanup_loop (select_expired now (flight_reservations s)) s"

subsection \<open>Sequences of operations\<close>

datatype op =
    Reserve string "string option" "int option" string int
  | Confirm string
  | Cancel string
  | Sweep int

fun step :: "op \<Rightarrow> db \<Rightarrow> db" where
  "step (Reserve fid b n i now) s = snd (createReservation fid b n i now s)"
| "step (Confirm i) s = snd (confirmReservation i s)"
| "step (Cancel i) s = snd (cancelReservation i s)"
| "step (Sweep now) s = reservationCleanup now s"

fun run :: "op list \<Rightarrow> db \<Rightarrow> db" where
  "run [] s = s"
| "run (x # xs) s = run xs (step x s)"


text \<open>The seats a flight's pending and confirmed reservations hold.\<close>

definition holds_seats :: "string \<Rightarrow> reservation \<Rightarrow> bool" where
  "holds_seats fid r = (flight_id r = fid \<and> (status r = Pending \<or> status r = Confirmed))"

definition held :: "string \<Rightarrow> reservation list \<Rightarrow> int" where
  "held fid rs = sum_list (map seats (filter (holds_seats fid) rs))"

text \<open>The primary key of \<^verbatim>\<open>flight_reservations\<close>.\<close>

definition unique_ids :: "reservation list \<Rightarrow> bool" where
  "unique_ids rs = distinct (map res_id rs)"

text \<open>The seats that the loop of the cleanup job gives back to flight \<open>f\<close>.\<close>

definition credited :: "string \<Rightarrow> (string \<times> string \<times> int) list \<Rightarrow> int" where
  "credited f rows = sum_list (map (\<lambda>(i, fid, n). n) (filter (\<lambda>(i, fid, n). fid = f) rows))"


text \<open>
  A small ledger for the examples: a confirmed reservation of two seats and a pending one
  of one seat that expires at time 10, both on flight F1.
\<close>

definition two_rows :: "reservation list" where
  "two_rows =
    [\<lparr>res_id = ''r1'', flight_id = ''F1'', booking_id = ''A'', seats = 2, status = Confirmed,
       expires_at = None\<rparr>,
     \<lparr>res_id = ''r2'', flight_id = ''F1'', booking_id = ''B'', seats = 1, status = Pending,
       expires_at = Some 10\<rparr>]"

section \<open>Properties of the statements\<close>

lemma add_available_seats_apply:
  "add_available_seats n fid fl f =
     (if fid = f then map_option (\<lambda>a. a + n) (fl f) else fl f)"
  by (simp add: add_available_seats_def split: option.split)


lemma res_id_set_status [simp]: "map res_id (set_status st i rs) = map res_id rs"
  by (induction rs) (simp_all add: set_status_def)

lemma res_id_set_status_clear_expiry [simp]:
  "map res_id (set_status_clear_expiry st i rs) = map res_id rs"
  by (induction rs) (simp_all add: set_status_clear_expiry_def)

lemma res_id_cleanup_loop [simp]:
  "map res_id (flight_reservations (cleanup_loop rows s)) = map res_id (flight_reservations s)"
  by (induction rows s rule: cleanup_loop.induct) simp_all

lemma unique_ids_eq:
  "unique_ids rs \<Longrightarrow> r \<in> set rs \<Longrightarrow> r' \<in> set rs \<Longrightarrow> res_id r = res_id r' \<Longrightarrow> r = r'"
  by (simp add: unique_ids_def distinct_map inj_on_def)

lemma is_stale_iff:
  "is_stale now r \<longleftrightarrow> status r = Pending \<and> (\<exists>e. expires_at r = Some e \<and> e < now)"
  by (simp add: is_stale_def split: option.split)

subsection \<open>The SELECT by id and status\<close>

lemma select_by_id_status_Nil:
  "select_by_id_status i st rs = [] \<longleftrightarrow> (\<forall>r \<in> set rs. res_id r = i \<longrightarrow> status r \<noteq> st)"
  unfolding select_by_id_status_def filter_empty_conv by blast

lemma select_by_id_status_Cons:
  "select_by_id_status i st rs = r # rest \<Longrightarrow> r \<in> set rs \<and> res_id r = i \<and> status r = st"
proof -
  assume "select_by_id_status i st rs = r # rest"
  then have "r \<in> set (filter (\<lambda>r. res_id r = i \<and> status r = st) rs)"
    by (simp add: select_by_id_status_def)
  then show ?thesis by simp
qed

text \<open>Under the primary key, the SELECT finds the one row with the id.\<close>

lemma select_by_id_status_unique:
  assumes "unique_ids rs" "r \<in> set rs" "res_id r = i" "status r = st"
  shows "\<exists>rest. select_by_id_status i st rs = r # rest"
proof (cases "select_by_id_status i st rs")
  case Nil
  then show ?thesis using assms by (auto simp: select_by_id_status_Nil)
next
  case (Cons x rest)
  then have "x \<in> set rs" "res_id x = i" using select_by_id_status_Cons[OF Cons] by simp_all
  then have "x = r" using unique_ids_eq[OF assms(1) _ assms(2)] assms(3) by simp
  then show ?thesis using Cons by simp
qed

lemma no_pending_after_set_status:
  "st \<noteq> Pending \<Longrightarrow> select_by_id_status i Pending (set_status st i rs) = []"
  by (induction rs) (simp_all add: select_by_id_status_def set_status_def)

lemma no_pending_after_set_status_clear_expiry:
  "st \<noteq> Pending \<Longrightarrow> select_by_id_status i Pending (set_status_clear_expiry st i rs) = []"
  by (induction rs) (simp_all add: select_by_id_status_def set_status_clear_expiry_def)

subsection \<open>The cleanup job in closed form\<close>

lemma cleanup_loop_reservations:
  "flight_reservations (cleanup_loop rows s) =
     map (\<lambda>r. if res_id r \<in> fst ` set rows then r\<lparr>status := Expired\<rparr> else r)
       (flight_reservations s)"
proof (induction rows arbitrary: s)
  case Nil
  then show ?case by simp
next
  case (Cons row rows)
  obtain i fid n where row: "row = (i, fid, n)" by (cases row)
  show ?case
    unfolding row by (simp add: Cons.IH set_status_def)
qed

lemma cleanup_loop_flights:
  "flights (cleanup_loop rows s) f = map_option (\<lambda>a. a + credited f rows) (flights s f)"
proof (induction rows arbitrary: s)
  case Nil
  then show ?case by (simp add: credited_def option.map_ident)
next
  case (Cons row rows)
  obtain i fid n where row: "row = (i, fid, n)" by (cases row)
  show ?case
    unfolding row
    by (simp add: Cons.IH add_available_seats_apply credited_def option.map_comp comp_def add.assoc)
qed

lemma select_expired_ids:
  "fst ` set (select_expired now rs) = res_id ` {r \<in> set rs. is_stale now r}"
  by (auto simp: select_expired_def image_iff)

lemma stale_id_iff:
  assumes "unique_ids rs" "r \<in> set rs"
  shows "res_id r \<in> fst ` set (select_expired now rs) \<longleftrightarrow> is_stale now r"
  using assms unique_ids_eq[OF assms(1)] by (auto simp: select_expired_ids)

lemma credited_select_expired:
  "credited f (select_expired now rs) =
     sum_list (map seats (filter (\<lambda>r. is_stale now r \<and> flight_id r = f) rs))"
  by (induction rs) (simp_all add: credited_def select_expired_def)

lemma reservationCleanup_reservations:
  assumes "unique_ids (flight_reservations s)"
  shows "flight_reservations (reservationCleanup now s) =
     map (\<lambda>r. if is_stale now r then r\<lparr>status := Expired\<rparr> else r) (flight_reservations s)"
  unfolding reservationCleanup_def cleanup_loop_reservations
  by (rule map_cong) (simp_all add: stale_id_iff[OF assms])

lemma reservationCleanup_flights:
  "flights (reservationCleanup now s) f =
     map_option (\<lambda>a. a + sum_list (map seats
        (filter (\<lambda>r. is_stale now r \<and> flight_id r = f) (flight_reservations s)))) (flights s f)"
  by (simp add: reservationCleanup_def cleanup_loop_flights credited_select_expired)

text \<open>After a run of the job its SELECT finds nothing, with or without the primary key.\<close>

lemma select_expired_after_cleanup:
  "select_expired now (flight_reservations (reservationCleanup now s)) = []"
proof -
  have "\<not> is_stale now x"
    if "x \<in> set (flight_reservations (reservationCleanup now s))" for x
  proof -
    from that have "x \<in> (\<lambda>r. if res_id r \<in> fst ` set (select_expired now (flight_reservations s))
                   then r\<lparr>status := Expired\<rparr> else r) ` set (flight_reservations s)"
      by (simp add: reservationCleanup_def cleanup_loop_reservations)
    then obtain r where r: "r \<in> set (flight_reservations s)"
      and x: "x = (if res_id r \<in> fst ` set (select_expired now (flight_reservations s))
                   then r\<lparr>status := Expired\<rparr> else r)"
      by (rule imageE)
    show ?thesis
    proof (cases "res_id r \<in> fst ` set (select_expired now (flight_reservations s))")
      case True
      then show ?thesis using x by (simp add: is_stale_def)
    next
      case False
      then have "\<not> is_stale now r" using r by (auto simp: select_expired_ids)
      then show ?thesis using x False by simp
    qed
  qed
  then show ?thesis by (simp add: select_expired_def filter_empty_conv)
qed

section \<open>The invariant of the ledger\<close>

subsection \<open>The primary key\<close>

text \<open>
  No operation breaks the uniqueness of the ids: from a ledger with unique ids, and so
  from the empty one, every run reaches a ledger with unique ids.
\<close>

lemma unique_ids_step:
  assumes "unique_ids (flight_reservations s)"
  shows "unique_ids (flight_reservations (step x s))"
proof (cases x)
  case (Reserve fid b n i now)
  then show ?thesis
    using assms
    by (simp add: createReservation_def insert_reservation_def Let_def unique_ids_def
        split: option.split)
next
  case (Confirm i)
  then show ?thesis
    using assms by (simp add: confirmReservation_def unique_ids_def split: list.split)
next
  case (Cancel i)
  then show ?thesis
    using assms by (simp add: cancelReservation_def unique_ids_def split: list.split)
next
  case (Sweep now)
  then show ?thesis
    using assms by (simp add: reservationCleanup_def unique_ids_def)
qed

lemma unique_ids_run:
  "unique_ids (flight_reservations s) \<Longrightarrow> unique_ids (flight_reservations (run xs s))"
  by (induction xs arbitrary: s) (simp_all add: unique_ids_step)


subsection \<open>Held seats\<close>




subsection \<open>Every operation keeps the invariant\<close>







lemma held_nonneg:
  "\<forall>r \<in> set rs. flight_id r = f \<longrightarrow> 0 < seats r \<Longrightarrow> 0 \<le> held f rs"
  unfolding held_def by (intro sum_list_nonneg) (auto simp: holds_seats_def)


subsection \<open>Cancel, called again\<close>

lemma cancelReservation_again:
  "cancelReservation i (snd (cancelReservation i s)) =
     (Inr (Message ''Reservation already processed or not found''), snd (cancelReservation i s))"
proof (cases "select_by_id_status i Pending (flight_reservations s)")
  case Nil
  then show ?thesis by (simp add: cancelReservation_def)
next
  case (Cons r rest)
  then show ?thesis
    by (simp add: cancelReservation_def no_pending_after_set_status)
qed

lemma cancelReservation_funpow:
  "((\<lambda>t. snd (cancelReservation i t)) ^^ Suc n) s = snd (cancelReservation i s)"
  by (induction n) (simp_all add: cancelReservation_again)

subsection \<open>What each operation does to the expiry\<close>

lemma createReservation_expires_at:
  assumes "fst (createReservation fid b n i now s) = Inr m"
  shows "\<exists>r. flight_reservations (snd (createReservation fid b n i now s)) =
           flight_reservations s @ [r] \<and>
         res_id r = i \<and> status r = Pending \<and> expires_at r = Some (now + hold_window)"
proof (cases b)
  case None
  then show ?thesis using assms by (simp add: createReservation_def)
next
  case (Some b')
  show ?thesis
  proof (cases "flights s fid")
    case None
    then show ?thesis using assms Some by (simp add: createReservation_def insert_reservation_def Let_def split: if_splits)
  next
    case (Some a)
    then show ?thesis using assms \<open>b = Some b'\<close>
      by (simp add: createReservation_def insert_reservation_def Let_def split: if_splits)
  qed
qed

lemma confirmReservation_expires_at:
  assumes "fst (confirmReservation i s) = Inr m"
    and "r \<in> set (flight_reservations (snd (confirmReservation i s)))" and "res_id r = i"
  shows "status r = Confirmed \<and> expires_at r = None"
proof (cases "select_by_id_status i Pending (flight_reservations s)")
  case Nil
  then show ?thesis using assms(1) by (simp add: confirmReservation_def)
next
  case (Cons x xs)
  then have "r \<in> (\<lambda>r. if res_id r = i then r\<lparr>status := Confirmed, expires_at := None\<rparr> else r) `
      set (flight_reservations s)"
    using assms(2) by (simp add: confirmReservation_def set_status_clear_expiry_def)
  then obtain r0 where "r = (if res_id r0 = i then r0\<lparr>status := Confirmed, expires_at := None\<rparr> else r0)"
    by (rule imageE)
  then show ?thesis using assms(3) by (cases "res_id r0 = i") simp_all
qed

lemma expires_at_set_status: "map expires_at (set_status st i rs) = map expires_at rs"
  by (induction rs) (simp_all add: set_status_def)

lemma cancelReservation_expires_at:
  "map expires_at (flight_reservations (snd (cancelReservation i s))) =
   map expires_at (flight_reservations s)"
  by (simp add: cancelReservation_def expires_at_set_status split: list.split)

lemma cleanup_loop_expires_at:
  "map expires_at (flight_reservations (cleanup_loop rows s)) =
   map expires_at (flight_reservations s)"
  by (induction rows s rule: cleanup_loop.induct) (simp_all add: expires_at_set_status)

lemma reservationCleanup_expires_at:
  "map expires_at (flight_reservations (reservationCleanup now s)) =
   map expires_at (flight_reservations s)"
  by (simp add: reservationCleanup_def cleanup_loop_expires_at)

subsection \<open>The check of the booking id\<close>

lemma createReservation_no_bookingId:
  "createReservation fid None n i now s = (Inl BAD_REQUEST, s)"
  "createReservation fid (Some []) n i now s = (Inl BAD_REQUEST, s)"
  by (simp_all add: createReservation_def)

lemma createReservation_not_BAD_REQUEST:
  "b \<noteq> [] \<Longrightarrow> fst (createReservation fid (Some b) n i now s) \<noteq> Inl BAD_REQUEST"
  by (simp add: createReservation_def insert_reservation_def Let_def split: option.split)

text \<open>
  The loop of the cleanup job has no guard on the status: the rows it is handed come from
  the SELECT, and it expires and credits each of them.
\<close>

lemma cleanup_loop_no_guard:
  "flight_reservations (cleanup_loop [(i, fid, n)] s) = set_status Expired i (flight_reservations s) \<and>
   flights (cleanup_loop [(i, fid, n)] s) = add_available_seats n fid (flights s)"
  by simp

text \<open>
  A row that is not pending in the database that the SELECT reads is not selected: in a
  ledger with unique ids the run leaves it as it is and gives none of its seats back.
\<close>

lemma cleanup_skips_row_settled_at_select:
  assumes "unique_ids (flight_reservations s)"
    and "k < length (flight_reservations s)"
    and "status (flight_reservations s ! k) \<noteq> Pending"
  shows "flight_reservations (reservationCleanup now s) ! k = flight_reservations s ! k \<and>
     flights (reservationCleanup now s) =
       flights (reservationCleanup now
         (s\<lparr>flight_reservations :=
              take k (flight_reservations s) @ drop (Suc k) (flight_reservations s)\<rparr>))"
proof
  have ns: "\<not> is_stale now (flight_reservations s ! k)"
    using assms(3) by (simp add: is_stale_def)
  then show "flight_reservations (reservationCleanup now s) ! k = flight_reservations s ! k"
    using assms(2) by (simp add: reservationCleanup_reservations[OF assms(1)])
  have split: "flight_reservations s =
      take k (flight_reservations s) @ flight_reservations s ! k # drop (Suc k) (flight_reservations s)"
    using assms(2) by (rule id_take_nth_drop)
  have "filter (\<lambda>r. is_stale now r \<and> flight_id r = f) (flight_reservations s) =
        filter (\<lambda>r. is_stale now r \<and> flight_id r = f)
          (take k (flight_reservations s) @ drop (Suc k) (flight_reservations s))" for f
    by (subst split) (simp add: ns)
  then show "flights (reservationCleanup now s) =
       flights (reservationCleanup now
         (s\<lparr>flight_reservations :=
              take k (flight_reservations s) @ drop (Suc k) (flight_reservations s)\<rparr>))"
    by (intro ext) (simp add: reservationCleanup_flights)
qed

section \<open>The claims\<close>

subsection \<open>No oversell\<close>



subsection \<open>The expiry of a reservation that has left pending\<close>

text \<open>
  C2. The claim: \<^verbatim>\<open>expires_at\<close> is set by Reserve and is NULL once the reservation is
  confirmed, cancelled or expired. Reserve sets it and Confirm clears it
  (\<open>createReservation_expires_at\<close>, \<open>confirmReservation_expires_at\<close>), but Cancel and
  the cleanup job write the status only (\<open>cancelReservation_expires_at\<close>,
  \<open>reservationCleanup_expires_at\<close>). Evaluated: a reservation made at time 0 and then
  cancelled, or swept at time 900001, keeps \<^verbatim>\<open>expires_at\<close> = 900000.
\<close>

theorem expires_at_kept_by_cancel_and_cleanup:
  "flight_reservations (snd (cancelReservation ''r1''
      (snd (createReservation ''F1'' (Some ''A'') (Some 1) ''r1'' 0
         \<lparr>flights = [''F1'' \<mapsto> 2], flight_reservations = []\<rparr>)))) =
     [\<lparr>res_id = ''r1'', flight_id = ''F1'', booking_id = ''A'', seats = 1, status = Cancelled,
       expires_at = Some 900000\<rparr>] \<and>
   flight_reservations (reservationCleanup 900001
      (snd (createReservation ''F1'' (Some ''A'') (Some 1) ''r1'' 0
         \<lparr>flights = [''F1'' \<mapsto> 2], flight_reservations = []\<rparr>))) =
     [\<lparr>res_id = ''r1'', flight_id = ''F1'', booking_id = ''A'', seats = 1, status = Expired,
       expires_at = Some 900000\<rparr>]"
  by (simp add: createReservation_def insert_reservation_def sub_available_seats_def cancelReservation_def reservationCleanup_def
      select_by_id_status_def select_expired_def is_stale_def set_status_def hold_window_def
      add_available_seats_def)

subsection \<open>Validation of the Reserve request\<close>

text \<open>
  C3. The claim: Reserve rejects a missing or empty booking id and a quantity that is not
  positive, leaving the tables as they were. The handler checks the booking id only
  (\<open>createReservation_no_bookingId\<close>). Evaluated: with \<^verbatim>\<open>seats\<close> = -1 on a flight of
  two free seats the reservation is created and the flight has three free seats; with
  \<^verbatim>\<open>seats\<close> = 0 the reservation is created as well.
\<close>

theorem reserve_accepts_nonpositive_seats:
  "createReservation ''F1'' (Some ''A'') (Some (- 1)) ''r1'' 0
      \<lparr>flights = [''F1'' \<mapsto> 2], flight_reservations = []\<rparr> =
     (Inr (ReservationId ''r1''),
      \<lparr>flights = [''F1'' \<mapsto> 3],
       flight_reservations =
         [\<lparr>res_id = ''r1'', flight_id = ''F1'', booking_id = ''A'', seats = - 1, status = Pending,
           expires_at = Some 900000\<rparr>]\<rparr>) \<and>
   fst (createReservation ''F1'' (Some ''A'') (Some 0) ''r1'' 0
      \<lparr>flights = [''F1'' \<mapsto> 2], flight_reservations = []\<rparr>) = Inr (ReservationId ''r1'')"
  by (simp add: createReservation_def insert_reservation_def hold_window_def sub_available_seats_def)

text \<open>
  What follows from it: on a flight of two seats, a Reserve of -1 seats, a Reserve of 3
  seats and the Cancel of the first leave three seats held and -1 seats free. The
  positive quantities in the hypothesis of C1 are needed.
\<close>

lemma negative_seats_oversell:
  "held ''F1'' (flight_reservations
     (run [Reserve ''F1'' (Some ''A'') (Some (- 1)) ''r1'' 0,
           Reserve ''F1'' (Some ''B'') (Some 3) ''r2'' 0,
           Cancel ''r1'']
        \<lparr>flights = [''F1'' \<mapsto> 2], flight_reservations = []\<rparr>)) = 3 \<and>
   flights
     (run [Reserve ''F1'' (Some ''A'') (Some (- 1)) ''r1'' 0,
           Reserve ''F1'' (Some ''B'') (Some 3) ''r2'' 0,
           Cancel ''r1'']
        \<lparr>flights = [''F1'' \<mapsto> 2], flight_reservations = []\<rparr>) ''F1'' = Some (- 1)"
  by (simp add: createReservation_def insert_reservation_def sub_available_seats_def
      cancelReservation_def select_by_id_status_def set_status_def add_available_seats_def
      held_def holds_seats_def)

subsection \<open>The cleanup job and reservations settled meanwhile\<close>

text \<open>
  C4. The claim: a reservation that was confirmed or cancelled before the cleanup job
  processes it is skipped by the job, neither set to expired nor credited back. This
  holds for a row that is settled when the SELECT reads
  (\<open>cleanup_skips_row_settled_at_select\<close>), but not for a row that is settled between
  the SELECT and the loop. Evaluated on \<open>two_rows\<close> with no free seat on F1: the
  SELECT at time 20 returns the pending r2; a Cancel of r2 then commits, leaving r2
  cancelled and one free seat; the loop sets r2 to expired and credits its seat a second
  time, leaving two free seats. When a Confirm of r2 commits instead, the loop sets the
  confirmed r2 to expired and frees its seat.
\<close>

theorem cleanup_expires_row_settled_after_select:
  "select_expired 20 two_rows = [(''r2'', ''F1'', 1)] \<and>
   snd (cancelReservation ''r2'' \<lparr>flights = [''F1'' \<mapsto> 0], flight_reservations = two_rows\<rparr>) =
     \<lparr>flights = [''F1'' \<mapsto> 1],
      flight_reservations =
        [\<lparr>res_id = ''r1'', flight_id = ''F1'', booking_id = ''A'', seats = 2,
           status = Confirmed, expires_at = None\<rparr>,
         \<lparr>res_id = ''r2'', flight_id = ''F1'', booking_id = ''B'', seats = 1,
           status = Cancelled, expires_at = Some 10\<rparr>]\<rparr> \<and>
   cleanup_loop (select_expired 20 two_rows)
     (snd (cancelReservation ''r2'' \<lparr>flights = [''F1'' \<mapsto> 0], flight_reservations = two_rows\<rparr>)) =
     \<lparr>flights = [''F1'' \<mapsto> 2],
      flight_reservations =
        [\<lparr>res_id = ''r1'', flight_id = ''F1'', booking_id = ''A'', seats = 2,
           status = Confirmed, expires_at = None\<rparr>,
         \<lparr>res_id = ''r2'', flight_id = ''F1'', booking_id = ''B'', seats = 1,
           status = Expired, expires_at = Some 10\<rparr>]\<rparr> \<and>
   snd (confirmReservation ''r2'' \<lparr>flights = [''F1'' \<mapsto> 0], flight_reservations = two_rows\<rparr>) =
     \<lparr>flights = [''F1'' \<mapsto> 0],
      flight_reservations =
        [\<lparr>res_id = ''r1'', flight_id = ''F1'', booking_id = ''A'', seats = 2,
           status = Confirmed, expires_at = None\<rparr>,
         \<lparr>res_id = ''r2'', flight_id = ''F1'', booking_id = ''B'', seats = 1,
           status = Confirmed, expires_at = None\<rparr>]\<rparr> \<and>
   cleanup_loop (select_expired 20 two_rows)
     (snd (confirmReservation ''r2'' \<lparr>flights = [''F1'' \<mapsto> 0], flight_reservations = two_rows\<rparr>)) =
     \<lparr>flights = [''F1'' \<mapsto> 1],
      flight_reservations =
        [\<lparr>res_id = ''r1'', flight_id = ''F1'', booking_id = ''A'', seats = 2,
           status = Confirmed, expires_at = None\<rparr>,
         \<lparr>res_id = ''r2'', flight_id = ''F1'', booking_id = ''B'', seats = 1,
           status = Expired, expires_at = None\<rparr>]\<rparr>"
  by (simp add: two_rows_def select_expired_def is_stale_def cancelReservation_def
      confirmReservation_def select_by_id_status_def set_status_def set_status_clear_expiry_def
      add_available_seats_def)

subsection \<open>Cancel is idempotent\<close>

text \<open>
  C5. Cancel always answers with success. Any number of calls, one after the other, leave
  the database that the first call left. When no row with the id is pending (absent,
  confirmed, cancelled or expired) the database does not change at all. When the row with
  the id is pending (ids unique), the flight of the reservation gains its seats, once,
  and every other flight is untouched.
\<close>

theorem cancel_idempotent:
  "(\<exists>m. fst (cancelReservation i s) = Inr m) \<and>
   ((\<lambda>t. snd (cancelReservation i t)) ^^ Suc n) s = snd (cancelReservation i s) \<and>
   ((\<forall>r \<in> set (flight_reservations s). res_id r = i \<longrightarrow> status r \<noteq> Pending) \<longrightarrow>
      snd (cancelReservation i s) = s) \<and>
   (\<forall>r \<in> set (flight_reservations s).
      unique_ids (flight_reservations s) \<and> res_id r = i \<and> status r = Pending \<longrightarrow>
      (\<forall>f. flights (snd (cancelReservation i s)) f =
         (if f = flight_id r then map_option (\<lambda>a. a + seats r) (flights s f) else flights s f)))"
proof (intro conjI)
  show "\<exists>m. fst (cancelReservation i s) = Inr m"
    by (simp add: cancelReservation_def split: list.split)
  show "((\<lambda>t. snd (cancelReservation i t)) ^^ Suc n) s = snd (cancelReservation i s)"
    by (rule cancelReservation_funpow)
  show "(\<forall>r \<in> set (flight_reservations s). res_id r = i \<longrightarrow> status r \<noteq> Pending) \<longrightarrow>
      snd (cancelReservation i s) = s"
  proof
    assume "\<forall>r \<in> set (flight_reservations s). res_id r = i \<longrightarrow> status r \<noteq> Pending"
    then have "select_by_id_status i Pending (flight_reservations s) = []"
      by (simp only: select_by_id_status_Nil)
    then show "snd (cancelReservation i s) = s"
      by (simp add: cancelReservation_def)
  qed
  show "\<forall>r \<in> set (flight_reservations s).
      unique_ids (flight_reservations s) \<and> res_id r = i \<and> status r = Pending \<longrightarrow>
      (\<forall>f. flights (snd (cancelReservation i s)) f =
         (if f = flight_id r then map_option (\<lambda>a. a + seats r) (flights s f) else flights s f))"
  proof (intro ballI impI allI)
    fix r f
    assume r: "r \<in> set (flight_reservations s)"
      and h: "unique_ids (flight_reservations s) \<and> res_id r = i \<and> status r = Pending"
    then obtain rest where "select_by_id_status i Pending (flight_reservations s) = r # rest"
      using select_by_id_status_unique by blast
    then show "flights (snd (cancelReservation i s)) f =
         (if f = flight_id r then map_option (\<lambda>a. a + seats r) (flights s f) else flights s f)"
      by (simp add: cancelReservation_def add_available_seats_apply)
  qed
qed

text \<open>
  An instance on \<open>two_rows\<close>: three Cancels of the pending r2 credit one seat; a Cancel
  of the confirmed r1 changes nothing.
\<close>

theorem cancel_idempotent_witness:
  "(\<exists>m. fst (cancelReservation ''r2'' \<lparr>flights = [''F1'' \<mapsto> 0], flight_reservations = two_rows\<rparr>) = Inr m) \<and>
   ((\<lambda>t. snd (cancelReservation ''r2'' t)) ^^ 3)
       \<lparr>flights = [''F1'' \<mapsto> 0], flight_reservations = two_rows\<rparr> =
     snd (cancelReservation ''r2'' \<lparr>flights = [''F1'' \<mapsto> 0], flight_reservations = two_rows\<rparr>) \<and>
   snd (cancelReservation ''r1'' \<lparr>flights = [''F1'' \<mapsto> 0], flight_reservations = two_rows\<rparr>) =
     \<lparr>flights = [''F1'' \<mapsto> 0], flight_reservations = two_rows\<rparr> \<and>
   flights (snd (cancelReservation ''r2'' \<lparr>flights = [''F1'' \<mapsto> 0], flight_reservations = two_rows\<rparr>))
     ''F1'' = Some 1"
  using cancel_idempotent [of "''r2''" "\<lparr>flights = [''F1'' \<mapsto> 0], flight_reservations = two_rows\<rparr>" 2]
    cancel_idempotent [of "''r1''" "\<lparr>flights = [''F1'' \<mapsto> 0], flight_reservations = two_rows\<rparr>" 0]
  by (simp add: unique_ids_def two_rows_def)

subsection \<open>Confirm is strict\<close>

text \<open>
  C6. When no row with the id is pending (absent, confirmed, cancelled or expired), Confirm
  answers with the failure \<^verbatim>\<open>CONFIRMATION_FAILED\<close> and leaves the database unchanged. A
  Confirm right after a Confirm of the same id always fails in this way.
\<close>

theorem confirm_strict:
  "((\<forall>r \<in> set (flight_reservations s). res_id r = i \<longrightarrow> status r \<noteq> Pending) \<longrightarrow>
      confirmReservation i s =
        (Inl (CONFIRMATION_FAILED ''Pending reservation not found or already processed''), s)) \<and>
   confirmReservation i (snd (confirmReservation i s)) =
     (Inl (CONFIRMATION_FAILED ''Pending reservation not found or already processed''),
      snd (confirmReservation i s))"
proof (intro conjI)
  show "(\<forall>r \<in> set (flight_reservations s). res_id r = i \<longrightarrow> status r \<noteq> Pending) \<longrightarrow>
      confirmReservation i s =
        (Inl (CONFIRMATION_FAILED ''Pending reservation not found or already processed''), s)"
  proof
    assume "\<forall>r \<in> set (flight_reservations s). res_id r = i \<longrightarrow> status r \<noteq> Pending"
    then have "select_by_id_status i Pending (flight_reservations s) = []"
      by (simp only: select_by_id_status_Nil)
    then show "confirmReservation i s =
        (Inl (CONFIRMATION_FAILED ''Pending reservation not found or already processed''), s)"
      by (simp add: confirmReservation_def)
  qed
  show "confirmReservation i (snd (confirmReservation i s)) =
     (Inl (CONFIRMATION_FAILED ''Pending reservation not found or already processed''),
      snd (confirmReservation i s))"
  proof (cases "select_by_id_status i Pending (flight_reservations s)")
    case Nil
    then show ?thesis by (simp add: confirmReservation_def)
  next
    case (Cons r rest)
    then show ?thesis
      by (simp add: confirmReservation_def no_pending_after_set_status_clear_expiry)
  qed
qed

text \<open>
  An instance on \<open>two_rows\<close>: Confirm of the confirmed r1 and of the absent r9 fail;
  Confirm of the pending r2 succeeds and a second one fails.
\<close>

theorem confirm_strict_witness:
  "confirmReservation ''r1'' \<lparr>flights = [''F1'' \<mapsto> 0], flight_reservations = two_rows\<rparr> =
     (Inl (CONFIRMATION_FAILED ''Pending reservation not found or already processed''),
      \<lparr>flights = [''F1'' \<mapsto> 0], flight_reservations = two_rows\<rparr>) \<and>
   confirmReservation ''r9'' \<lparr>flights = [''F1'' \<mapsto> 0], flight_reservations = two_rows\<rparr> =
     (Inl (CONFIRMATION_FAILED ''Pending reservation not found or already processed''),
      \<lparr>flights = [''F1'' \<mapsto> 0], flight_reservations = two_rows\<rparr>) \<and>
   fst (confirmReservation ''r2'' \<lparr>flights = [''F1'' \<mapsto> 0], flight_reservations = two_rows\<rparr>) =
     Inr (StatusIs ''confirmed'') \<and>
   fst (confirmReservation ''r2''
         (snd (confirmReservation ''r2'' \<lparr>flights = [''F1'' \<mapsto> 0], flight_reservations = two_rows\<rparr>))) =
     Inl (CONFIRMATION_FAILED ''Pending reservation not found or already processed'')"
  using confirm_strict [of "\<lparr>flights = [''F1'' \<mapsto> 0], flight_reservations = two_rows\<rparr>" "''r1''"]
    confirm_strict [of "\<lparr>flights = [''F1'' \<mapsto> 0], flight_reservations = two_rows\<rparr>" "''r9''"]
    confirm_strict [of "\<lparr>flights = [''F1'' \<mapsto> 0], flight_reservations = two_rows\<rparr>" "''r2''"]
  by (simp add: two_rows_def confirmReservation_def select_by_id_status_def)

subsection \<open>What one run of the cleanup job does\<close>

text \<open>
  C7. In a ledger with unique ids, a run of the cleanup job at time \<open>now\<close> keeps the
  number and order of the rows; a pending row whose expiry is before \<open>now\<close> gets status
  expired and is otherwise unchanged; a pending row whose expiry is at or after \<open>now\<close>
  is unchanged; and every flight gains the seats of its pending rows with expiry before
  \<open>now\<close>, each counted once.
\<close>

theorem sweep_expires_stale:
  assumes "unique_ids (flight_reservations s)"
  shows "length (flight_reservations (reservationCleanup now s)) = length (flight_reservations s) \<and>
    (\<forall>k < length (flight_reservations s).
       (status (flight_reservations s ! k) = Pending \<and>
        (\<exists>e. expires_at (flight_reservations s ! k) = Some e \<and> e < now) \<longrightarrow>
          flight_reservations (reservationCleanup now s) ! k =
            (flight_reservations s ! k)\<lparr>status := Expired\<rparr>) \<and>
       (status (flight_reservations s ! k) = Pending \<and>
        (\<exists>e. expires_at (flight_reservations s ! k) = Some e \<and> now \<le> e) \<longrightarrow>
          flight_reservations (reservationCleanup now s) ! k = flight_reservations s ! k)) \<and>
    (\<forall>f. flights (reservationCleanup now s) f =
       map_option (\<lambda>a. a + sum_list (map seats (filter
          (\<lambda>r. (status r = Pending \<and> (\<exists>e. expires_at r = Some e \<and> e < now)) \<and> flight_id r = f)
          (flight_reservations s)))) (flights s f))"
proof (intro conjI allI impI)
  show "length (flight_reservations (reservationCleanup now s)) = length (flight_reservations s)"
    by (simp add: reservationCleanup_reservations[OF assms])
next
  fix k
  assume k: "k < length (flight_reservations s)"
    and "status (flight_reservations s ! k) = Pending \<and>
        (\<exists>e. expires_at (flight_reservations s ! k) = Some e \<and> e < now)"
  then have "is_stale now (flight_reservations s ! k)" by (simp only: is_stale_iff)
  then show "flight_reservations (reservationCleanup now s) ! k =
            (flight_reservations s ! k)\<lparr>status := Expired\<rparr>"
    using k by (simp add: reservationCleanup_reservations[OF assms])
next
  fix k
  assume k: "k < length (flight_reservations s)"
    and "status (flight_reservations s ! k) = Pending \<and>
        (\<exists>e. expires_at (flight_reservations s ! k) = Some e \<and> now \<le> e)"
  then have "\<not> is_stale now (flight_reservations s ! k)" by (auto simp: is_stale_iff)
  then show "flight_reservations (reservationCleanup now s) ! k = flight_reservations s ! k"
    using k by (simp add: reservationCleanup_reservations[OF assms])
next
  fix f
  show "flights (reservationCleanup now s) f =
       map_option (\<lambda>a. a + sum_list (map seats (filter
          (\<lambda>r. (status r = Pending \<and> (\<exists>e. expires_at r = Some e \<and> e < now)) \<and> flight_id r = f)
          (flight_reservations s)))) (flights s f)"
    by (simp only: reservationCleanup_flights is_stale_iff)
qed

text \<open>
  An instance on \<open>two_rows\<close>, whose pending row expires at 10: swept at 20 it is expired
  and its seat is back; swept at 10 it is unchanged.
\<close>

theorem sweep_expires_stale_witness:
  "unique_ids two_rows \<and>
   flight_reservations
     (reservationCleanup 20 \<lparr>flights = [''F1'' \<mapsto> 0], flight_reservations = two_rows\<rparr>) ! 1 =
     (two_rows ! 1)\<lparr>status := Expired\<rparr> \<and>
   flight_reservations
     (reservationCleanup 10 \<lparr>flights = [''F1'' \<mapsto> 0], flight_reservations = two_rows\<rparr>) ! 1 =
     two_rows ! 1 \<and>
   flights (reservationCleanup 20 \<lparr>flights = [''F1'' \<mapsto> 0], flight_reservations = two_rows\<rparr>)
     ''F1'' = Some 1"
  using sweep_expires_stale [of "\<lparr>flights = [''F1'' \<mapsto> 0], flight_reservations = two_rows\<rparr>" 20]
    sweep_expires_stale [of "\<lparr>flights = [''F1'' \<mapsto> 0], flight_reservations = two_rows\<rparr>" 10]
  by (simp add: unique_ids_def two_rows_def)

subsection \<open>The frame of Confirm\<close>

text \<open>
  C8. A successful Confirm leaves the table of flights unchanged and keeps the number and
  order of the reservations; a row with another id is unchanged, and a row with the id
  differs from before in \<^verbatim>\<open>status\<close> (now confirmed) and \<^verbatim>\<open>expires_at\<close> (now NULL) only.
\<close>

theorem confirm_frame:
  assumes "fst (confirmReservation i s) = Inr m"
  shows "flights (snd (confirmReservation i s)) = flights s \<and>
     length (flight_reservations (snd (confirmReservation i s))) = length (flight_reservations s) \<and>
     (\<forall>k < length (flight_reservations s).
        flight_reservations (snd (confirmReservation i s)) ! k =
          (if res_id (flight_reservations s ! k) = i
           then (flight_reservations s ! k)\<lparr>status := Confirmed, expires_at := None\<rparr>
           else flight_reservations s ! k))"
  using assms
  by (cases "select_by_id_status i Pending (flight_reservations s)")
     (simp_all add: confirmReservation_def set_status_clear_expiry_def)

text \<open>An instance on \<open>two_rows\<close>: Confirm of the pending r2.\<close>

theorem confirm_frame_witness:
  "fst (confirmReservation ''r2'' \<lparr>flights = [''F1'' \<mapsto> 0], flight_reservations = two_rows\<rparr>) =
     Inr (StatusIs ''confirmed'') \<and>
   flights (snd (confirmReservation ''r2'' \<lparr>flights = [''F1'' \<mapsto> 0], flight_reservations = two_rows\<rparr>)) =
     [''F1'' \<mapsto> 0] \<and>
   flight_reservations
     (snd (confirmReservation ''r2'' \<lparr>flights = [''F1'' \<mapsto> 0], flight_reservations = two_rows\<rparr>)) =
     [two_rows ! 0, (two_rows ! 1)\<lparr>status := Confirmed, expires_at := None\<rparr>]"
proof -
  let ?s = "\<lparr>flights = [''F1'' \<mapsto> 0], flight_reservations = two_rows\<rparr>"
  have ok: "fst (confirmReservation ''r2'' ?s) = Inr (StatusIs ''confirmed'')"
    by (simp add: confirmReservation_def select_by_id_status_def two_rows_def)
  from confirm_frame [OF ok] show ?thesis
    using ok by (simp add: two_rows_def nth_equalityI less_Suc_eq list_eq_iff_nth_eq)
qed

subsection \<open>The scenario of a flight with two seats\<close>

text \<open>
  C9. On a flight \<open>u\<close> with two free seats: Reserve of 2 seats for booking \<open>a\<close> succeeds
  and leaves 0 free seats; Reserve of 1 seat for booking \<open>b\<close> fails for lack of seats
  and changes nothing; Cancel of the first reservation succeeds and leaves 2 free seats;
  Reserve of 1 seat for booking \<open>b\<close> then succeeds. The booking ids are not empty and the
  ids drawn for the two successful reservations are fresh.
\<close>

theorem scenario_capacity_two:
  assumes "a \<noteq> []" and "b \<noteq> []" and "r1 \<noteq> r3"
    and "flights s0 u = Some 2"
    and "r1 \<notin> set (map res_id (flight_reservations s0))"
    and "r3 \<notin> set (map res_id (flight_reservations s0))"
  shows "let (x1, s1) = createReservation u (Some a) (Some 2) r1 t1 s0;
             (x2, s2) = createReservation u (Some b) (Some 1) r2 t2 s1;
             (x3, s3) = cancelReservation r1 s2;
             (x4, s4) = createReservation u (Some b) (Some 1) r3 t3 s3
         in x1 = Inr (ReservationId r1) \<and> flights s1 u = Some 0 \<and>
            x2 = Inl (RESERVATION_FAILED ''Not enough available seats'') \<and> s2 = s1 \<and>
            x3 = Inr (StatusIs ''cancelled'') \<and> flights s3 u = Some 2 \<and>
            x4 = Inr (ReservationId r3) \<and> flights s4 u = Some 1"
proof -
  let ?row = "\<lparr>res_id = r1, flight_id = u, booking_id = a, seats = 2, status = Pending,
      expires_at = Some (t1 + hold_window)\<rparr>"
  let ?s1 = "s0\<lparr>flights := (flights s0)(u \<mapsto> 0),
      flight_reservations := flight_reservations s0 @ [?row]\<rparr>"
  have c1: "createReservation u (Some a) (Some 2) r1 t1 s0 = (Inr (ReservationId r1), ?s1)"
    using assms by (simp add: createReservation_def insert_reservation_def sub_available_seats_def)
  have c2: "createReservation u (Some b) (Some 1) r2 t2 ?s1 =
      (Inl (RESERVATION_FAILED ''Not enough available seats''), ?s1)"
    using assms by (simp add: createReservation_def)
  have "select_by_id_status r1 Pending (flight_reservations s0) = []"
    using assms(5) unfolding select_by_id_status_Nil by auto
  then have sel: "select_by_id_status r1 Pending (flight_reservations ?s1) = [?row]"
    by (simp add: select_by_id_status_def)
  let ?s3 = "?s1\<lparr>flight_reservations := set_status Cancelled r1 (flight_reservations ?s1),
      flights := (flights s0)(u \<mapsto> 2)\<rparr>"
  have c3: "cancelReservation r1 ?s1 = (Inr (StatusIs ''cancelled''), ?s3)"
    unfolding cancelReservation_def sel by (simp add: add_available_seats_def)
  have c4: "fst (createReservation u (Some b) (Some 1) r3 t3 ?s3) = Inr (ReservationId r3) \<and>
        flights (snd (createReservation u (Some b) (Some 1) r3 t3 ?s3)) u = Some 1"
    using assms by (simp add: createReservation_def insert_reservation_def sub_available_seats_def)
  show ?thesis
    unfolding c1 Let_def prod.case c2 c3 using c4 by (simp add: case_prod_beta)
qed

text \<open>An instance, from an empty ledger.\<close>

theorem scenario_capacity_two_witness:
  "let (x1, s1) = createReservation ''U'' (Some ''A'') (Some 2) ''r1'' 0
                    \<lparr>flights = [''U'' \<mapsto> 2], flight_reservations = []\<rparr>;
       (x2, s2) = createReservation ''U'' (Some ''B'') (Some 1) ''r2'' 1 s1;
       (x3, s3) = cancelReservation ''r1'' s2;
       (x4, s4) = createReservation ''U'' (Some ''B'') (Some 1) ''r3'' 2 s3
   in x1 = Inr (ReservationId ''r1'') \<and> flights s1 ''U'' = Some 0 \<and>
      x2 = Inl (RESERVATION_FAILED ''Not enough available seats'') \<and> s2 = s1 \<and>
      x3 = Inr (StatusIs ''cancelled'') \<and> flights s3 ''U'' = Some 2 \<and>
      x4 = Inr (ReservationId ''r3'') \<and> flights s4 ''U'' = Some 1"
  using scenario_capacity_two [of "''A''" "''B''" "''r1''" "''r3''"
      "\<lparr>flights = [''U'' \<mapsto> 2], flight_reservations = []\<rparr>" "''U''" 0 "''r2''" 1 2]
  by simp

subsection \<open>The cleanup job is idempotent\<close>

text \<open>
  C10. After a run of the cleanup job at time \<open>now\<close>, the SELECT of a second run at the
  same time finds no row, and the second run returns the database unchanged.
\<close>

theorem sweep_idempotent:
  "select_expired now (flight_reservations (reservationCleanup now s)) = [] \<and>
   reservationCleanup now (reservationCleanup now s) = reservationCleanup now s"
proof -
  define t where "t = reservationCleanup now s"
  have none: "select_expired now (flight_reservations t) = []"
    unfolding t_def by (rule select_expired_after_cleanup)
  then have "reservationCleanup now t = t"
    by (simp add: reservationCleanup_def)
  with none show ?thesis unfolding t_def by simp
qed

end
